theory Spec2Isabelle
  imports Main "HOL-Library.AList"
begin

section \<open>JavaScript values used by the session manager\<close>

text \<open>
  The operator \<open>a || b\<close> yields \<open>b\<close> when \<open>a\<close> is falsy. For an optional string the
  falsy values are \<open>undefined\<close> and the empty string; for an optional number they are
  \<open>undefined\<close> and \<open>0\<close>; an array is always truthy, so only \<open>undefined\<close> is replaced.
  Numbers that carry a terminal dimension are taken as integers.
\<close>

definition truthy_str :: "string option \<Rightarrow> bool" where
  "truthy_str a = (case a of None \<Rightarrow> False | Some s \<Rightarrow> s \<noteq> [])"

definition str_or :: "string option \<Rightarrow> string \<Rightarrow> string" where
  "str_or a b = (case a of None \<Rightarrow> b | Some s \<Rightarrow> if s = [] then b else s)"

definition num_or :: "int option \<Rightarrow> int \<Rightarrow> int" where
  "num_or a b = (case a of None \<Rightarrow> b | Some n \<Rightarrow> if n = 0 then b else n)"

definition arr_or :: "'a list option \<Rightarrow> 'a list \<Rightarrow> 'a list" where
  "arr_or a b = (case a of None \<Rightarrow> b | Some xs \<Rightarrow> xs)"

text \<open>\<open>s.split(d)\<close> for a one-character separator: the empty string splits into one empty piece.\<close>

fun str_split :: "char \<Rightarrow> string \<Rightarrow> string list" where
  "str_split d [] = [[]]"
| "str_split d (c # cs) =
     (if c = d then [] # str_split d cs
      else (case str_split d cs of [] \<Rightarrow> [[c]] | p # ps \<Rightarrow> (c # p) # ps))"

text \<open>\<open>xs.join(d)\<close>.\<close>

fun arr_join :: "char \<Rightarrow> string list \<Rightarrow> string" where
  "arr_join d [] = []"
| "arr_join d [x] = x"
| "arr_join d (x # y # ys) = x @ d # arr_join d (y # ys)"

text \<open>
  \<open>[...new Set(xs)]\<close>: a Set keeps its elements in the order of their first insertion, and
  inserting an element that is already present changes nothing.
\<close>

definition set_add :: "'a list \<Rightarrow> 'a \<Rightarrow> 'a list" where
  "set_add acc x = (if x \<in> set acc then acc else acc @ [x])"

definition new_Set :: "'a list \<Rightarrow> 'a list" where
  "new_Set xs = foldl set_add [] xs"

text \<open>
  The template literal \<open>`pty-${n}`\<close> prints a non-negative integer below \<open>10^21\<close> in decimal
  without leading zeros. \<open>digit_char\<close> is only applied to a digit, a number below 10.
\<close>

definition digit_char :: "nat \<Rightarrow> char" where
  "digit_char d = ''0123456789'' ! d"

fun num_to_string :: "nat \<Rightarrow> string" where
  "num_to_string n =
     (if n < 10 then [digit_char n] else num_to_string (n div 10) @ [digit_char (n mod 10)])"

declare num_to_string.simps [simp del]

text \<open>
  The counter is a JavaScript number, an IEEE double. It starts at 0 and is only ever
  incremented by one, so it holds an integer, and \<open>++\<close> is exact as long as the result is at
  most \<open>2^53\<close>. At \<open>2^53\<close> the sum \<open>2^53 + 1\<close> is not representable and rounds (to even) back
  to \<open>2^53\<close>: the counter stays there. Values above \<open>2^53\<close> are never reached.
\<close>

definition MAX_EXACT :: nat where
  "MAX_EXACT = 9007199254740992"

definition js_incr :: "nat \<Rightarrow> nat" where
  "js_incr n = (if n < MAX_EXACT then n + 1 else n)"


section \<open>The host: platform, environment and the services the manager calls\<close>

record ShellConfig =
  shellType :: string
  customShellPath :: "string option"
  customShellArgs :: "string list option"

text \<open>
  \<open>isWindows\<close> is \<open>process.platform === 'win32'\<close> and \<open>homedir\<close> is \<open>os.homedir()\<close>.
  \<open>process_env\<close> holds the entries of \<open>process.env\<close>, which the spread \<open>...process.env\<close>
  copies under their names as they are spelled. \<open>getenv name\<close> is the read
  \<open>process.env.name\<close>; on a Unix-like system it is \<open>process_env name\<close>, on Windows the
  read ignores the case of the name. \<open>path_join\<close> is \<open>join\<close> of \<open>node:path\<close>.
  \<open>resolveShellConfig\<close> and \<open>detectShell\<close> are the two functions the manager imports from
  the shell detector; here they are whatever the detector computes on this host.
  \<open>spawn_refused file args cwd\<close> tells whether the operating system refuses to start the
  process, in which case \<open>pty.spawn\<close> throws.
\<close>

record host =
  isWindows :: bool
  process_env :: "string \<rightharpoonup> string"
  getenv :: "string \<Rightarrow> string option"
  homedir :: string
  path_join :: "string list \<Rightarrow> string"
  resolveShellConfig :: "ShellConfig \<Rightarrow> string \<times> string list"
  detectShell :: string
  spawn_refused :: "string \<Rightarrow> string list \<Rightarrow> string \<Rightarrow> bool"

text \<open>\<open>delimiter\<close> of \<open>node:path\<close>: \<open>;\<close> on Windows, \<open>:\<close> elsewhere.\<close>

definition delimiter :: "host \<Rightarrow> char" where
  "delimiter h = (if isWindows h then CHR '';'' else CHR '':'')"

text \<open>\<open>process.env.HOME || process.env.USERPROFILE || homedir()\<close>\<close>

definition home_of :: "host \<Rightarrow> string" where
  "home_of h = str_or (getenv h ''HOME'') (str_or (getenv h ''USERPROFILE'') (homedir h))"

text \<open>The two \<open>additionalPaths\<close> arrays of \<open>getEnhancedPath\<close>.\<close>

definition additionalPaths :: "host \<Rightarrow> string list" where
  "additionalPaths h =
     (let home = home_of h in
      if isWindows h then
        [path_join h [home, ''AppData'', ''Roaming'', ''npm''],
         path_join h [home, ''.volta'', ''bin''],
         path_join h [home, ''scoop'', ''shims'']]
      else
        [''/usr/local/bin'',
         ''/opt/homebrew/bin'',
         ''/opt/homebrew/sbin'',
         path_join h [home, ''.nvm'', ''versions'', ''node'', ''current'', ''bin''],
         path_join h [home, ''.npm-global'', ''bin''],
         path_join h [home, ''.local'', ''bin'']])"

definition getEnhancedPath :: "host \<Rightarrow> string" where
  "getEnhancedPath h =
     (let currentPath = str_or (getenv h ''PATH'') [];
          allPaths = new_Set (additionalPaths h @ str_split (delimiter h) currentPath)
      in arr_join (delimiter h) allPaths)"


section \<open>Pseudo-terminal processes\<close>

text \<open>
  A callback is known by a token; calling it is observed as an entry of the log \<open>calls\<close>.
  An entry for \<open>onExit\<close> also names the process whose exit listener made the call.
\<close>

type_synonym callback = nat

datatype call =
  OnData callback string
| OnExit nat callback int "int option"

text \<open>
  A \<open>node-pty\<close> process object: what it was spawned with (\<open>pty_cols\<close> and \<open>pty_rows\<close> hold
  its geometry, the one \<open>spawn\<close> was given or the one the last \<open>resize\<close> set), the data written to it, whether
  \<open>kill\<close> was called, and the listeners registered on it. The exit listener registered by
  \<open>create\<close> is a closure over the session identifier and the caller's \<open>onExit\<close>.
\<close>

record pty_proc =
  pty_file :: string
  pty_args :: "string list"
  pty_name :: string
  pty_cols :: int
  pty_rows :: int
  pty_cwd :: string
  pty_env :: "string \<rightharpoonup> string"
  pty_input :: "string list"
  pty_killed :: bool
  pty_data_listener :: "callback option"
  pty_exit_listener :: "(string \<times> callback option) option"

record PtySession =
  pty :: nat
  onData :: callback
  onExit :: "callback option"

record TerminalCreateOptions =
  opt_cwd :: "string option"
  opt_shell :: "string option"
  opt_args :: "string list option"
  opt_cols :: "int option"
  opt_rows :: "int option"
  opt_env :: "(string \<rightharpoonup> string) option"
  opt_shellConfig :: "ShellConfig option"

text \<open>
  The manager's two fields, \<open>sessions\<close> (a Map, kept in insertion order) and \<open>counter\<close>,
  together with the process objects it has spawned (a session refers to its process by
  position in \<open>procs\<close>) and the log of callback invocations.
\<close>

record world =
  sessions :: "(string \<times> PtySession) list"
  counter :: nat
  procs :: "pty_proc list"
  calls :: "call list"

definition init_world :: world where
  "init_world = \<lparr>sessions = [], counter = 0, procs = [], calls = []\<rparr>"

datatype error = SpawnFailure | ResizeFailure

text \<open>
  A method call on the process object \<open>p\<close>. A session always refers to a process object
  that exists; for any other \<open>p\<close> nothing changes.
\<close>

definition update_proc :: "nat \<Rightarrow> (pty_proc \<Rightarrow> pty_proc) \<Rightarrow> world \<Rightarrow> world" where
  "update_proc p f w =
     (if p < length (procs w) then w\<lparr>procs := (procs w)[p := f (procs w ! p)]\<rparr> else w)"


section \<open>PtyManager\<close>

definition create ::
  "host \<Rightarrow> TerminalCreateOptions \<Rightarrow> callback \<Rightarrow> callback option \<Rightarrow> world
     \<Rightarrow> (error + string) \<times> world" where
  "create h options on_data on_exit w =
     (let w1 = w\<lparr>counter := js_incr (counter w)\<rparr>;
          sid = ''pty-'' @ num_to_string (counter w1);
          home = home_of h;
          cwd = str_or (opt_cwd options) home;
          (shell, args) =
            (if truthy_str (opt_shell options) then
               (str_or (opt_shell options) [], arr_or (opt_args options) [])
             else (case opt_shellConfig options of
                     Some cfg \<Rightarrow> resolveShellConfig h cfg
                   | None \<Rightarrow> (detectShell h, arr_or (opt_args options) [])))
      in if spawn_refused h shell args cwd then (Inl SpawnFailure, w1)
         else
           (let ptyProcess = length (procs w1);
                spawned = \<lparr>pty_file = shell, pty_args = args,
                  pty_name = ''xterm-256color'',
                  pty_cols = num_or (opt_cols options) 80,
                  pty_rows = num_or (opt_rows options) 24,
                  pty_cwd = cwd,
                  pty_env =
                    (process_env h ++ (case opt_env options of None \<Rightarrow> Map.empty | Some e \<Rightarrow> e))
                      (''PATH'' \<mapsto> getEnhancedPath h,
                       ''TERM'' \<mapsto> ''xterm-256color'',
                       ''COLORTERM'' \<mapsto> ''truecolor''),
                  pty_input = [], pty_killed = False,
                  pty_data_listener = Some on_data,
                  pty_exit_listener = Some (sid, on_exit)\<rparr>;
                w2 = w1\<lparr>procs := procs w1 @ [spawned]\<rparr>;
                w3 = w2\<lparr>sessions :=
                  AList.update sid \<lparr>pty = ptyProcess, onData = on_data, onExit = on_exit\<rparr>
                    (sessions w2)\<rparr>
            in (Inr sid, w3)))"

definition write_data :: "string \<Rightarrow> string \<Rightarrow> world \<Rightarrow> world" where
  "write_data sid data w =
     (case map_of (sessions w) sid of
        None \<Rightarrow> w
      | Some session \<Rightarrow> update_proc (pty session) (\<lambda>p. p\<lparr>pty_input := pty_input p @ [data]\<rparr>) w)"

text \<open>
  \<open>resize\<close> of a \<open>node-pty\<close> process object (\<open>UnixTerminal.prototype.resize\<close> and
  \<open>WindowsTerminal.prototype.resize\<close>): it throws "resizing must be done using positive cols
  and rows" when \<open>cols <= 0 || rows <= 0\<close>, before it touches the pseudo-terminal, and sets
  the geometry otherwise. \<open>Inl\<close> is the exception; the state is then the one before the call.
\<close>

definition pty_resize :: "nat \<Rightarrow> int \<Rightarrow> int \<Rightarrow> world \<Rightarrow> error + world" where
  "pty_resize p cols rows w =
     (if cols \<le> 0 \<or> rows \<le> 0 then Inl ResizeFailure
      else Inr (update_proc p (\<lambda>x. x\<lparr>pty_cols := cols, pty_rows := rows\<rparr>) w))"

text \<open>\<open>PtyManager.resize\<close> has no \<open>try\<close>: an exception of \<open>session.pty.resize\<close> leaves it.\<close>

definition resize :: "string \<Rightarrow> int \<Rightarrow> int \<Rightarrow> world \<Rightarrow> error + world" where
  "resize sid cols rows w =
     (case map_of (sessions w) sid of
        None \<Rightarrow> Inr w
      | Some session \<Rightarrow> pty_resize (pty session) cols rows w)"

definition destroy :: "string \<Rightarrow> world \<Rightarrow> world" where
  "destroy sid w =
     (case map_of (sessions w) sid of
        None \<Rightarrow> w
      | Some session \<Rightarrow>
          (let w1 = update_proc (pty session) (\<lambda>p. p\<lparr>pty_killed := True\<rparr>) w
           in w1\<lparr>sessions := AList.delete sid (sessions w1)\<rparr>))"

text \<open>
  \<open>destroyAll\<close> walks the keys of the Map while \<open>destroy\<close> removes them; each key is
  visited once, in insertion order.
\<close>

definition destroyAll :: "world \<Rightarrow> world" where
  "destroyAll w = fold destroy (map fst (sessions w)) w"

text \<open>
  The two listeners \<open>create\<close> registers on the process object. \<open>pty_emit_data\<close> and
  \<open>pty_emit_exit\<close> are what happens when \<open>node-pty\<close> emits the event on process \<open>p\<close>.
\<close>

definition pty_emit_data :: "nat \<Rightarrow> string \<Rightarrow> world \<Rightarrow> world" where
  "pty_emit_data p data w =
     (if p < length (procs w) then
        (case pty_data_listener (procs w ! p) of
           None \<Rightarrow> w
         | Some on_data \<Rightarrow> w\<lparr>calls := calls w @ [OnData on_data data]\<rparr>)
      else w)"

definition pty_emit_exit :: "nat \<Rightarrow> int \<Rightarrow> int option \<Rightarrow> world \<Rightarrow> world" where
  "pty_emit_exit p exitCode signal w =
     (if p < length (procs w) then
        (case pty_exit_listener (procs w ! p) of
           None \<Rightarrow> w
         | Some (sid, on_exit) \<Rightarrow>
             (let w1 = w\<lparr>sessions := AList.delete sid (sessions w)\<rparr>
              in (case on_exit of
                    None \<Rightarrow> w1
                  | Some cb \<Rightarrow> w1\<lparr>calls := calls w1 @ [OnExit p cb exitCode signal]\<rparr>)))
      else w)"


section \<open>Runs of the manager\<close>

text \<open>
  JavaScript runs one handler at a time, so a run of the manager is a sequence of calls of its
  methods by the application and of events emitted by the processes, in any order. A call
  that throws leaves the state as the exception found it, and the run goes on.
\<close>

datatype event =
  Create TerminalCreateOptions callback "callback option"
| Write string string
| Resize string int int
| Destroy string
| DestroyAll
| PtyData nat string
| PtyExit nat int "int option"

fun step :: "host \<Rightarrow> world \<Rightarrow> event \<Rightarrow> world" where
  "step h w (Create options on_data on_exit) = snd (create h options on_data on_exit w)"
| "step h w (Write sid data) = write_data sid data w"
| "step h w (Resize sid cols rows) =
     (case resize sid cols rows w of Inl _ \<Rightarrow> w | Inr w' \<Rightarrow> w')"
| "step h w (Destroy sid) = destroy sid w"
| "step h w DestroyAll = destroyAll w"
| "step h w (PtyData p data) = pty_emit_data p data w"
| "step h w (PtyExit p exitCode signal) = pty_emit_exit p exitCode signal w"

definition run :: "host \<Rightarrow> world \<Rightarrow> event list \<Rightarrow> world" where
  "run h w evs = foldl (step h) w evs"

fun is_exit_event :: "nat \<Rightarrow> event \<Rightarrow> bool" where
  "is_exit_event p (PtyExit q _ _) = (q = p)"
| "is_exit_event p _ = False"

fun is_onExit_call :: "nat \<Rightarrow> call \<Rightarrow> bool" where
  "is_onExit_call p (OnExit q _ _ _) = (q = p)"
| "is_onExit_call p _ = False"

fun is_create :: "event \<Rightarrow> bool" where
  "is_create (Create _ _ _) = True"
| "is_create _ = False"

text \<open>The identifiers that the \<open>create\<close> calls of a run return, in order of the calls.\<close>

fun returned :: "host \<Rightarrow> world \<Rightarrow> event list \<Rightarrow> string list" where
  "returned h w [] = []"
| "returned h w (ev # evs) =
     (case ev of
        Create options on_data on_exit \<Rightarrow>
          (case fst (create h options on_data on_exit w) of Inl _ \<Rightarrow> [] | Inr sid \<Rightarrow> [sid])
      | _ \<Rightarrow> [])
     @ returned h (step h w ev) evs"

definition mk_id :: "nat \<Rightarrow> string" where
  "mk_id n = ''pty-'' @ num_to_string n"

text \<open>The process object a registered session refers to.\<close>

definition session_proc :: "world \<Rightarrow> string \<Rightarrow> pty_proc option" where
  "session_proc w sid =
     (case map_of (sessions w) sid of
        None \<Rightarrow> None
      | Some session \<Rightarrow>
          if pty session < length (procs w) then Some (procs w ! pty session) else None)"




section \<open>Agent CLI detector\<close>

text \<open>
  \<open>CliDetector.ts\<close>, which holds \<open>detectAll\<close>, is not among the sources. The definitions
  of this section follow section 4.3 of the specification.
\<close>

record CustomAgent =
  agent_id :: string
  agent_name :: string
  agent_command :: string
  agent_description :: "string option"

datatype environment = Native | Wsl

record AgentCliInfo =
  cli_id :: string
  installed :: bool
  version :: "string option"
  environment :: environment

text \<open>
  How one probe ends: the command was found and printed a first line when asked for its
  version; the command is not on the search path; the probe failed with an exception; the
  probe ran into its timeout.
\<close>

datatype probe_outcome = Found string | NotFound | Failed | TimedOut

text \<open>
  The fixed built-in agents (identifier and command), the platform, how the probe of a
  command ends in an environment for an agent, and the parser of the version line.
\<close>

record detector_host =
  builtin_agents :: "(string \<times> string) list"
  host_is_windows :: bool
  probe_outcome_of :: "environment \<Rightarrow> string \<Rightarrow> string \<Rightarrow> probe_outcome"
  parse_version :: "string \<Rightarrow> string option"

text \<open>Modelled from the spec: the "uninstalled" fallback of \<open>CliDetector.ts\<close> (not among the sources).\<close>

definition uninstalled :: "environment \<Rightarrow> string \<Rightarrow> AgentCliInfo" where
  "uninstalled env agent = \<lparr>cli_id = agent, installed = False, version = None, environment = env\<rparr>"

text \<open>
  Modelled from the spec: the probe of one agent in \<open>CliDetector.ts\<close> (not among the
  sources): "each probe returns its own result or an uninstalled fallback", and installed
  "is false whenever version could not be determined".
\<close>

definition probe :: "detector_host \<Rightarrow> environment \<Rightarrow> string \<times> string \<Rightarrow> AgentCliInfo" where
  "probe h env a =
     (case probe_outcome_of h env (fst a) (snd a) of
        Found line \<Rightarrow>
          (case parse_version h line of
             Some v \<Rightarrow> \<lparr>cli_id = fst a, installed = True, version = Some v, environment = env\<rparr>
           | None \<Rightarrow> uninstalled env (fst a))
      | NotFound \<Rightarrow> uninstalled env (fst a)
      | Failed \<Rightarrow> uninstalled env (fst a)
      | TimedOut \<Rightarrow> uninstalled env (fst a))"

text \<open>
  Modelled from the spec: the agents \<open>detectAll\<close> of \<open>CliDetector.ts\<close> (not among the
  sources) probes, "the union of a fixed set of built-in agent identifiers and the
  caller-supplied custom agents", where a custom agent whose identifier is that of a built-in
  one overrides its command and is reported under the shared identifier.
\<close>

definition probed_agents :: "detector_host \<Rightarrow> CustomAgent list \<Rightarrow> (string \<times> string) list" where
  "probed_agents h customAgents =
     map (\<lambda>b. (fst b, case find (\<lambda>c. agent_id c = fst b) customAgents of
                         Some c \<Rightarrow> agent_command c | None \<Rightarrow> snd b)) (builtin_agents h)
     @ map (\<lambda>c. (agent_id c, agent_command c))
         (filter (\<lambda>c. agent_id c \<notin> set (map fst (builtin_agents h))) customAgents)"

text \<open>
  Modelled from the spec: \<open>detectAll(customAgents, options)\<close> of \<open>CliDetector.ts\<close> (not
  among the sources). Every agent gets one native record; with \<open>includeWsl\<close> on Windows each
  built-in agent is probed a second time through WSL, which adds a record only if that probe
  succeeds.
\<close>

definition detectAll :: "detector_host \<Rightarrow> CustomAgent list \<Rightarrow> bool \<Rightarrow> AgentCliInfo list" where
  "detectAll h customAgents includeWsl =
     map (probe h Native) (probed_agents h customAgents)
     @ (if includeWsl \<and> host_is_windows h
        then filter installed
               (map (probe h Wsl) (take (length (builtin_agents h)) (probed_agents h customAgents)))
        else [])"

text \<open>The same host, except that the probe of one agent in one environment ends as given.\<close>

definition with_outcome ::
  "detector_host \<Rightarrow> environment \<Rightarrow> string \<Rightarrow> probe_outcome \<Rightarrow> detector_host" where
  "with_outcome h env agent outcome =
     h\<lparr>probe_outcome_of :=
         (\<lambda>e a cmd. if e = env \<and> a = agent then outcome else probe_outcome_of h e a cmd)\<rparr>"

definition is_entry :: "environment \<Rightarrow> string \<Rightarrow> AgentCliInfo \<Rightarrow> bool" where
  "is_entry env agent r = (cli_id r = agent \<and> environment r = env)"

definition is_native :: "AgentCliInfo \<Rightarrow> bool" where
  "is_native r = (environment r = Native)"


section \<open>Sample inputs\<close>

text \<open>
  A Unix host, two option records (one empty, one that sets every field), the states reached
  by creating a session with each, and three runs: concrete inputs on which the definitions
  are evaluated. \<open>long_run\<close> creates and destroys a session \<open>2^53 - 1\<close> times.
\<close>

definition host0 :: host where
  "host0 = \<lparr>isWindows = False,
     process_env = [''HOME'' \<mapsto> ''/home/u'', ''PATH'' \<mapsto> ''/usr/bin:/usr/local/bin''],
     getenv = [''HOME'' \<mapsto> ''/home/u'', ''PATH'' \<mapsto> ''/usr/bin:/usr/local/bin''],
     homedir = ''/home/u'',
     path_join = arr_join (CHR ''/''),
     resolveShellConfig = (\<lambda>cfg. (''/bin/'' @ shellType cfg, [''-l''])),
     detectShell = ''/bin/zsh'',
     spawn_refused = (\<lambda>file args cwd. file = [])\<rparr>"

definition options0 :: TerminalCreateOptions where
  "options0 = \<lparr>opt_cwd = None, opt_shell = None, opt_args = None, opt_cols = None,
     opt_rows = None, opt_env = None, opt_shellConfig = None\<rparr>"

definition options1 :: TerminalCreateOptions where
  "options1 = \<lparr>opt_cwd = Some ''/tmp'', opt_shell = Some ''/bin/fish'', opt_args = Some [''-i''],
     opt_cols = Some (- 5), opt_rows = Some 0,
     opt_env = Some [''TERM'' \<mapsto> ''dumb'', ''FOO'' \<mapsto> ''bar''],
     opt_shellConfig = Some \<lparr>shellType = ''zsh'', customShellPath = None, customShellArgs = None\<rparr>\<rparr>"

definition world1 :: world where
  "world1 = snd (create host0 options0 0 None init_world)"

definition world2 :: world where
  "world2 = snd (create host0 options1 7 (Some 8) world1)"

definition events0 :: "event list" where
  "events0 = [Create options1 7 (Some 8), Destroy ''pty-1'', PtyExit 0 0 (Some 1),
     Create options0 0 None]"


definition long_run :: "event list" where
  "long_run = concat (replicate (MAX_EXACT - 1) [Create options0 0 None, DestroyAll])"

definition detector0 :: detector_host where
  "detector0 = \<lparr>builtin_agents = [(''claude'', ''claude''), (''codex'', ''codex'')],
     host_is_windows = True,
     probe_outcome_of = (\<lambda>env a cmd. if env = Wsl then NotFound
                                     else if cmd = ''claude'' then Found ''1.0.3 (Claude Code)''
                                     else if cmd = ''codex'' then Found ''0.2.0'' else NotFound),
     parse_version = (\<lambda>line. Some (takeWhile (\<lambda>c. c \<noteq> CHR '' '') line))\<rparr>"

section \<open>Basic facts\<close>

lemma sessions_update_proc: "sessions (update_proc p f w) = sessions w"
  by (simp add: update_proc_def)

lemma counter_update_proc: "counter (update_proc p f w) = counter w"
  by (simp add: update_proc_def)

lemma calls_update_proc: "calls (update_proc p f w) = calls w"
  by (simp add: update_proc_def)

lemma destroy_unknown: "map_of (sessions w) sid = None \<Longrightarrow> destroy sid w = w"
  by (simp add: destroy_def)

lemma write_unknown: "map_of (sessions w) sid = None \<Longrightarrow> write_data sid data w = w"
  by (simp add: write_data_def)

lemma resize_unknown: "map_of (sessions w) sid = None \<Longrightarrow> resize sid cols rows w = Inr w"
  by (simp add: resize_def)

lemma destroy_removes: "map_of (sessions (destroy sid w)) sid = None"
  by (simp add: destroy_def Let_def sessions_update_proc delete_conv' split: option.splits)

lemma session_proc_append_new:
  "session_proc (w\<lparr>procs := procs w @ [p],
      sessions := AList.update sid \<lparr>pty = length (procs w), onData = d, onExit = e\<rparr> (sessions w)\<rparr>) sid
   = Some p"
  by (simp add: session_proc_def update_conv')

lemma create_success:
  assumes "create h options d e w = (Inr sid, w')"
  shows "\<exists>p. session_proc w' sid = Some p \<and> procs w' = procs w @ [p] \<and>
     (pty_file p, pty_args p) =
        (if truthy_str (opt_shell options) then
           (str_or (opt_shell options) [], arr_or (opt_args options) [])
         else (case opt_shellConfig options of
                 Some cfg \<Rightarrow> resolveShellConfig h cfg
               | None \<Rightarrow> (detectShell h, arr_or (opt_args options) []))) \<and>
     pty_cols p = num_or (opt_cols options) 80 \<and>
     pty_rows p = num_or (opt_rows options) 24 \<and>
     pty_env p =
       (process_env h ++ (case opt_env options of None \<Rightarrow> Map.empty | Some e \<Rightarrow> e))
         (''PATH'' \<mapsto> getEnhancedPath h, ''TERM'' \<mapsto> ''xterm-256color'',
          ''COLORTERM'' \<mapsto> ''truecolor'')"
  using assms
  by (auto simp add: create_def Let_def session_proc_def update_conv'
      split: if_splits prod.splits option.splits)

lemma create_counter: "counter (snd (create h options d e w)) = js_incr (counter w)"
  by (simp add: create_def Let_def split: prod.splits)

lemma create_calls: "calls (snd (create h options d e w)) = calls w"
  by (simp add: create_def Let_def split: prod.splits)

lemma create_id:
  "create h options d e w = (Inr sid, w') \<Longrightarrow> sid = ''pty-'' @ num_to_string (js_incr (counter w))"
  by (auto simp add: create_def Let_def split: if_splits prod.splits)

lemma create_result:
  "fst (create h options d e w) = Inr sid \<Longrightarrow> sid = ''pty-'' @ num_to_string (js_incr (counter w))"
  using create_id [of h options d e w sid "snd (create h options d e w)"]
  by (simp add: prod_eq_iff)

subsection \<open>Decimal rendering of the counter\<close>

lemma num_to_string_1: "num_to_string (Suc 0) = ''1''"
  by (simp add: num_to_string.simps digit_char_def)

lemma num_to_string_2: "num_to_string (Suc (Suc 0)) = ''2''"
  by (subst num_to_string.simps) (simp add: digit_char_def)

lemma num_to_string_MAX_EXACT: "num_to_string MAX_EXACT = ''9007199254740992''"
  by (simp add: MAX_EXACT_def num_to_string.simps digit_char_def)

lemma digit_char_inj: "a < 10 \<Longrightarrow> b < 10 \<Longrightarrow> digit_char a = digit_char b \<Longrightarrow> a = b"
proof -
  assume a: "a < 10" and b: "b < 10" and e: "digit_char a = digit_char b"
  have d: "distinct ''0123456789''" by simp
  from a b e d show ?thesis
    unfolding digit_char_def by (simp add: nth_eq_iff_index_eq)
qed

lemma num_to_string_nonempty: "num_to_string n \<noteq> []"
  by (subst num_to_string.simps) simp

lemma num_to_string_inj: "num_to_string m = num_to_string n \<Longrightarrow> m = n"
proof (induction m arbitrary: n rule: num_to_string.induct)
  case (1 m)
  show ?case
  proof (cases "m < 10")
    case True
    then have lm: "num_to_string m = [digit_char m]" by (subst num_to_string.simps) simp
    show ?thesis
    proof (cases "n < 10")
      case True
      then have "num_to_string n = [digit_char n]" by (subst num_to_string.simps) simp
      with lm "1.prems" \<open>m < 10\<close> True show ?thesis by (simp add: digit_char_inj)
    next
      case False
      then have "num_to_string n = num_to_string (n div 10) @ [digit_char (n mod 10)]"
        by (subst num_to_string.simps) simp
      with lm "1.prems" num_to_string_nonempty [of "n div 10"] show ?thesis by simp
    qed
  next
    case False
    then have lm: "num_to_string m = num_to_string (m div 10) @ [digit_char (m mod 10)]"
      by (subst num_to_string.simps) simp
    show ?thesis
    proof (cases "n < 10")
      case True
      then have "num_to_string n = [digit_char n]" by (subst num_to_string.simps) simp
      with lm "1.prems" num_to_string_nonempty [of "m div 10"] show ?thesis by simp
    next
      case nf: False
      then have ln: "num_to_string n = num_to_string (n div 10) @ [digit_char (n mod 10)]"
        by (subst num_to_string.simps) simp
      from lm ln "1.prems" have q: "num_to_string (m div 10) = num_to_string (n div 10)"
        and r: "digit_char (m mod 10) = digit_char (n mod 10)" by simp_all
      from "1.IH" [OF False q] have "m div 10 = n div 10" .
      moreover from r have "m mod 10 = n mod 10" by (simp add: digit_char_inj)
      ultimately show ?thesis by (metis div_mult_mod_eq)
    qed
  qed
qed

lemma inj_mk_id: "inj mk_id"
  by (auto simp add: inj_def mk_id_def dest: num_to_string_inj)

subsection \<open>Sets in insertion order\<close>








subsection \<open>What each operation does to the callback log and to the counter\<close>

lemma calls_write: "calls (write_data sid data w) = calls w"
  by (simp add: write_data_def calls_update_proc split: option.splits)

lemma calls_resize:
  "calls (case resize sid cols rows w of Inl x \<Rightarrow> w | Inr w' \<Rightarrow> w') = calls w"
  by (simp add: resize_def pty_resize_def calls_update_proc split: option.splits)

lemma calls_destroy: "calls (destroy sid w) = calls w"
  by (simp add: destroy_def Let_def calls_update_proc split: option.splits)

lemma calls_fold_destroy: "calls (fold destroy ids w) = calls w"
  by (induction ids arbitrary: w) (simp_all add: calls_destroy)

lemma calls_destroyAll: "calls (destroyAll w) = calls w"
  by (simp add: destroyAll_def calls_fold_destroy)

lemma onExit_calls_emit_data:
  "filter (is_onExit_call p) (calls (pty_emit_data q data w)) = filter (is_onExit_call p) (calls w)"
  by (simp add: pty_emit_data_def split: option.splits)

lemma onExit_calls_emit_exit:
  "length (filter (is_onExit_call p) (calls (pty_emit_exit q exitCode signal w)))
     \<le> length (filter (is_onExit_call p) (calls w)) + (if q = p then 1 else 0)"
  by (simp add: pty_emit_exit_def Let_def split: option.splits prod.splits)

lemma onExit_calls_step:
  "length (filter (is_onExit_call p) (calls (step h w ev)))
     \<le> length (filter (is_onExit_call p) (calls w)) + (if is_exit_event p ev then 1 else 0)"
proof (cases ev)
  case (PtyExit q exitCode signal)
  then show ?thesis using onExit_calls_emit_exit [of p q exitCode signal w] by simp
qed (simp_all add: create_calls calls_write calls_resize calls_destroy calls_destroyAll
      onExit_calls_emit_data)

lemma onExit_calls_run:
  "length (filter (is_onExit_call p) (calls (run h w evs)))
     \<le> length (filter (is_onExit_call p) (calls w)) + length (filter (is_exit_event p) evs)"
proof (induction evs arbitrary: w)
  case Nil
  show ?case by (simp add: run_def)
next
  case (Cons ev evs)
  have "run h w (ev # evs) = run h (step h w ev) evs" by (simp add: run_def)
  then show ?case
    using Cons.IH [of "step h w ev"] onExit_calls_step [of p h w ev]
    by (auto split: if_splits)
qed

lemma counter_write: "counter (write_data sid data w) = counter w"
  by (simp add: write_data_def counter_update_proc split: option.splits)

lemma counter_resize:
  "counter (case resize sid cols rows w of Inl x \<Rightarrow> w | Inr w' \<Rightarrow> w') = counter w"
  by (simp add: resize_def pty_resize_def counter_update_proc split: option.splits)

lemma counter_destroy: "counter (destroy sid w) = counter w"
  by (simp add: destroy_def Let_def counter_update_proc split: option.splits)

lemma counter_fold_destroy: "counter (fold destroy ids w) = counter w"
  by (induction ids arbitrary: w) (simp_all add: counter_destroy)

lemma counter_destroyAll: "counter (destroyAll w) = counter w"
  by (simp add: destroyAll_def counter_fold_destroy)

lemma counter_emit_data: "counter (pty_emit_data p data w) = counter w"
  by (simp add: pty_emit_data_def split: option.splits)

lemma counter_emit_exit: "counter (pty_emit_exit p exitCode signal w) = counter w"
  by (simp add: pty_emit_exit_def Let_def split: option.splits prod.splits)

lemma counter_step:
  "counter (step h w ev) = (if is_create ev then js_incr (counter w) else counter w)"
  by (cases ev) (simp_all add: create_counter counter_write counter_resize counter_destroy
      counter_destroyAll counter_emit_data counter_emit_exit)

lemma counter_run:
  "counter w + length (filter is_create evs) \<le> MAX_EXACT \<Longrightarrow>
   counter (run h w evs) = counter w + length (filter is_create evs)"
proof (induction evs arbitrary: w)
  case Nil
  show ?case by (simp add: run_def)
next
  case (Cons ev evs)
  have r: "run h w (ev # evs) = run h (step h w ev) evs" by (simp add: run_def)
  show ?case
  proof (cases "is_create ev")
    case True
    with Cons.prems have c: "counter (step h w ev) = Suc (counter w)"
      by (simp add: counter_step js_incr_def)
    with True Cons.prems have "counter (step h w ev) + length (filter is_create evs) \<le> MAX_EXACT"
      by simp
    from Cons.IH [OF this] c True r show ?thesis by simp
  next
    case False
    then have c: "counter (step h w ev) = counter w" by (simp add: counter_step)
    with False Cons.prems have "counter (step h w ev) + length (filter is_create evs) \<le> MAX_EXACT"
      by simp
    from Cons.IH [OF this] c False r show ?thesis by simp
  qed
qed

lemma returned_increasing:
  "counter w + length (filter is_create evs) \<le> MAX_EXACT \<Longrightarrow>
   \<exists>ns. returned h w evs = map mk_id ns \<and> sorted_wrt (<) ns \<and> (\<forall>n\<in>set ns. counter w < n)"
proof (induction evs arbitrary: w)
  case Nil
  show ?case by simp
next
  case (Cons ev evs)
  show ?case
  proof (cases "is_create ev")
    case False
    with Cons.prems have "counter (step h w ev) + length (filter is_create evs) \<le> MAX_EXACT"
      by (simp add: counter_step)
    from Cons.IH [OF this] obtain ns where
      ns: "returned h (step h w ev) evs = map mk_id ns" "sorted_wrt (<) ns"
        "\<forall>n\<in>set ns. counter (step h w ev) < n" by blast
    from False have "returned h w (ev # evs) = returned h (step h w ev) evs"
      by (cases ev) simp_all
    with ns False show ?thesis by (auto simp add: counter_step)
  next
    case True
    then obtain options d e where ev: "ev = Create options d e" by (cases ev) simp_all
    from True Cons.prems have lt: "counter w < MAX_EXACT" by simp
    then have inc: "js_incr (counter w) = Suc (counter w)" by (simp add: js_incr_def)
    with True Cons.prems have "counter (step h w ev) + length (filter is_create evs) \<le> MAX_EXACT"
      by (simp add: counter_step)
    from Cons.IH [OF this] obtain ns where
      ns: "returned h (step h w ev) evs = map mk_id ns" "sorted_wrt (<) ns"
        "\<forall>n\<in>set ns. counter (step h w ev) < n" by blast
    from ns(3) True inc have gt: "\<forall>n\<in>set ns. Suc (counter w) < n" by (simp add: counter_step)
    show ?thesis
    proof (cases "fst (create h options d e w)")
      case (Inl err)
      with ev ns(1) have "returned h w (ev # evs) = map mk_id ns" by simp
      moreover from gt have "\<forall>n\<in>set ns. counter w < n" by auto
      ultimately show ?thesis using ns(2) by blast
    next
      case (Inr sid)
      from create_result [OF Inr] inc have "sid = mk_id (Suc (counter w))" by (simp add: mk_id_def)
      with Inr ev ns(1) have "returned h w (ev # evs) = map mk_id (Suc (counter w) # ns)"
        by simp
      moreover from gt ns(2) have "sorted_wrt (<) (Suc (counter w) # ns)" by auto
      moreover from gt have "\<forall>n\<in>set (Suc (counter w) # ns). counter w < n" by auto
      ultimately show ?thesis by blast
    qed
  qed
qed

subsection \<open>The sample inputs\<close>

lemmas eval_defs = create_def host0_def options0_def options1_def init_world_def Let_def
  js_incr_def MAX_EXACT_def truthy_str_def str_or_def arr_or_def num_or_def home_of_def

lemma create0: "fst (create host0 options0 0 None init_world) = Inr ''pty-1''"
  by (simp add: create_def host0_def options0_def init_world_def Let_def js_incr_def MAX_EXACT_def
      truthy_str_def str_or_def arr_or_def home_of_def num_to_string_1)

lemma create_world1: "create host0 options0 0 None init_world = (Inr ''pty-1'', world1)"
  by (simp add: world1_def prod_eq_iff create0)

lemma sessions_world1: "sessions world1 = [(''pty-1'', \<lparr>pty = 0, onData = 0, onExit = None\<rparr>)]"
  by (simp add: world1_def eval_defs num_to_string_1)

lemma counter_world1: "counter world1 = 1"
  by (simp add: world1_def eval_defs)

lemma create_world2: "create host0 options1 7 (Some 8) world1 = (Inr ''pty-2'', world2)"
  by (simp add: world2_def prod_eq_iff create_def Let_def counter_world1 js_incr_def MAX_EXACT_def
      num_to_string_2 truthy_str_def str_or_def arr_or_def host0_def options1_def)

lemma session_proc_world1:
  "\<exists>p. session_proc world1 ''pty-1'' = Some p \<and> pty_cols p = 80 \<and> pty_rows p = 24"
  using create_success [OF create_world1] by (auto simp add: options0_def num_or_def)




lemma split_host0: "str_split (CHR '':'') ''/usr/bin:/usr/local/bin'' = [''/usr/bin'', ''/usr/local/bin'']"
  by simp


lemma creates_long_run: "length (filter is_create long_run) = MAX_EXACT - 1"
proof -
  have "length (filter is_create (concat (replicate n [Create options0 0 None, DestroyAll]))) = n" for n
    by (induction n) simp_all
  then show ?thesis by (simp add: long_run_def)
qed

lemma counter_long_run: "counter (run host0 init_world long_run) = MAX_EXACT - 1"
proof -
  have "counter init_world + length (filter is_create long_run) \<le> MAX_EXACT"
    by (simp add: creates_long_run init_world_def)
  from counter_run [OF this] show ?thesis by (simp add: creates_long_run init_world_def)
qed

lemma create_host0_options0:
  "fst (create host0 options0 d e w) = Inr (''pty-'' @ num_to_string (js_incr (counter w)))"
  by (simp add: create_def Let_def host0_def options0_def truthy_str_def split: prod.splits)

lemma run_events0_calls: "calls (run host0 init_world events0) = [OnExit 0 8 0 (Some 1)]"
  by (simp add: events0_def run_def eval_defs num_to_string_1 destroy_def update_proc_def
      pty_emit_exit_def)

lemma returned_events0: "returned host0 init_world events0 = [''pty-1'', ''pty-2'']"
  by (simp add: events0_def eval_defs num_to_string_1 num_to_string_2 destroy_def update_proc_def
      pty_emit_exit_def)

section \<open>The geometry of a session\<close>


















section \<open>Exit notifications\<close>

text \<open>
  Claim C2. In every run of the manager from its initial state, whatever the order of the
  calls of \<open>create\<close>, \<open>write\<close>, \<open>resize\<close>, \<open>destroy\<close>, \<open>destroyAll\<close> and of the
  data and exit events of the processes, the number of times the \<open>onExit\<close> callback of a
  session is invoked is at most the number of exit events that the session's process emits.
  A process exits once, so \<open>onExit\<close> is invoked at most once; \<open>destroy\<close> itself never
  invokes it, before or after the exit event.
\<close>

theorem onExit_at_most_once:
  "length (filter (is_onExit_call p) (calls (run h init_world evs)))
      \<le> length (filter (is_exit_event p) evs) \<and>
   (length (filter (is_exit_event p) evs) \<le> 1 \<longrightarrow>
      length (filter (is_onExit_call p) (calls (run h init_world evs))) \<le> 1) \<and>
   calls (destroy sid w) = calls w"
  using onExit_calls_run [of p h init_world evs]
  by (simp add: init_world_def calls_destroy)

theorem onExit_at_most_once_witness:
  "length (filter (is_exit_event 0) events0) \<le> 1 \<and>
   length (filter (is_onExit_call 0) (calls (run host0 init_world events0))) \<le> 1 \<and>
   calls (run host0 init_world events0) = [OnExit 0 8 0 (Some 1)]"
  using onExit_at_most_once [of 0 host0 events0]
  by (simp add: run_events0_calls) (simp add: events0_def)

section \<open>Writing to a session that is gone\<close>

text \<open>
  Claim C3. \<open>write(id, data)\<close> with an identifier that is not in the registry returns
  normally and leaves the whole state as it was: the registry, the counter, every process
  object (so nothing is written to any process) and the callback log. After \<open>destroy(id)\<close>
  the identifier is not in the registry, so a write that follows a destroy is such a no-op.
\<close>

theorem write_after_destroy_noop:
  "(map_of (sessions w) sid = None \<longrightarrow> write_data sid data w = w) \<and>
   write_data sid data (destroy sid w) = destroy sid w"
  by (simp add: write_unknown destroy_removes)

theorem write_after_destroy_noop_witness:
  "map_of (sessions (destroy ''pty-1'' world1)) ''pty-1'' = None \<and>
   write_data ''pty-1'' ''ls'' (destroy ''pty-1'' world1) = destroy ''pty-1'' world1 \<and>
   map_of (sessions world1) ''pty-1'' \<noteq> None"
  using write_after_destroy_noop [of "destroy ''pty-1'' world1" "''pty-1''" "''ls''"]
  by (simp add: destroy_removes sessions_world1)

section \<open>One failing probe does not touch the others\<close>

lemma probed_agents_with_outcome:
  "probed_agents (with_outcome h env agent outcome) cs = probed_agents h cs"
  by (simp add: probed_agents_def with_outcome_def)

lemma host_is_windows_with_outcome:
  "host_is_windows (with_outcome h env agent outcome) = host_is_windows h"
  by (simp add: with_outcome_def)

lemma builtin_agents_with_outcome:
  "builtin_agents (with_outcome h env agent outcome) = builtin_agents h"
  by (simp add: with_outcome_def)

lemma probe_other:
  "e \<noteq> env \<or> fst a \<noteq> agent \<Longrightarrow> probe (with_outcome h env agent outcome) e a = probe h e a"
  by (auto simp add: probe_def with_outcome_def split: probe_outcome.splits)

lemma probe_failed:
  "outcome = Failed \<or> outcome = TimedOut \<Longrightarrow> fst a = agent \<Longrightarrow>
   probe (with_outcome h env agent outcome) env a = uninstalled env agent"
  by (auto simp add: probe_def with_outcome_def)

lemma probe_id_env: "cli_id (probe h e a) = fst a \<and> environment (probe h e a) = e"
  by (simp add: probe_def uninstalled_def split: probe_outcome.splits option.splits)

lemma others_same:
  "filter (\<lambda>r. \<not> is_entry env agent r) (map (probe (with_outcome h env agent outcome) e) as)
   = filter (\<lambda>r. \<not> is_entry env agent r) (map (probe h e) as)"
proof (induction as)
  case Nil
  show ?case by simp
next
  case (Cons a as)
  show ?case
  proof (cases "e = env \<and> fst a = agent")
    case True
    then have "is_entry env agent (probe (with_outcome h env agent outcome) e a)"
      "is_entry env agent (probe h e a)"
      by (simp_all add: is_entry_def probe_id_env)
    with Cons.IH show ?thesis by simp
  next
    case False
    then have "probe (with_outcome h env agent outcome) e a = probe h e a"
      by (intro probe_other) auto
    with Cons.IH show ?thesis by simp
  qed
qed

lemma others_same_installed:
  "filter (\<lambda>r. \<not> is_entry env agent r)
     (filter installed (map (probe (with_outcome h env agent outcome) e) as))
   = filter (\<lambda>r. \<not> is_entry env agent r) (filter installed (map (probe h e) as))"
proof -
  have c: "filter (\<lambda>r. \<not> is_entry env agent r) (filter installed xs)
      = filter installed (filter (\<lambda>r. \<not> is_entry env agent r) xs)" for xs
    by (induction xs) simp_all
  show ?thesis unfolding c others_same ..
qed

lemma native_entries:
  "map cli_id (filter is_native (detectAll h cs includeWsl)) = map fst (probed_agents h cs)"
proof -
  have n: "filter is_native (map (probe h Native) as) = map (probe h Native) as" for as
    by (induction as) (simp_all add: is_native_def probe_id_env)
  have w: "filter is_native (filter installed (map (probe h Wsl) as)) = []" for as
    by (induction as) (simp_all add: is_native_def probe_id_env)
  have i: "map cli_id (map (probe h Native) as) = map fst as" for as
    by (induction as) (simp_all add: probe_id_env)
  show ?thesis by (simp add: detectAll_def n w i del: filter_filter map_map)
qed

lemma detectAll_detector0_timeout:
  "detectAll (with_outcome detector0 Native ''claude'' TimedOut) [] True =
     [\<lparr>cli_id = ''claude'', installed = False, version = None, environment = Native\<rparr>,
      \<lparr>cli_id = ''codex'', installed = True, version = Some ''0.2.0'', environment = Native\<rparr>]"
  by (simp add: detectAll_def probed_agents_def detector0_def probe_def uninstalled_def
      with_outcome_def)

text \<open>
  Claim C5. Let the probe of one agent, in one environment, fail or run into its timeout.
  Then \<open>detectAll\<close> still returns its list, with one native record for every probed agent
  as before; every record of that agent in that environment is the uninstalled record; and
  the records of all other agents, and of that agent in the other environment, are the
  same as they are when the probe does not fail.
\<close>

theorem detectAll_isolation:
  assumes "outcome = Failed \<or> outcome = TimedOut"
  shows "map cli_id (filter is_native (detectAll (with_outcome h env agent outcome) cs includeWsl))
      = map cli_id (filter is_native (detectAll h cs includeWsl)) \<and>
    (\<forall>r \<in> set (detectAll (with_outcome h env agent outcome) cs includeWsl).
        is_entry env agent r \<longrightarrow> r = uninstalled env agent) \<and>
    filter (\<lambda>r. \<not> is_entry env agent r) (detectAll (with_outcome h env agent outcome) cs includeWsl)
      = filter (\<lambda>r. \<not> is_entry env agent r) (detectAll h cs includeWsl)"
proof -
  let ?h = "with_outcome h env agent outcome"
  have len: "map cli_id (filter is_native (detectAll ?h cs includeWsl))
      = map cli_id (filter is_native (detectAll h cs includeWsl))"
    by (simp add: native_entries probed_agents_with_outcome)
  have deg: "\<forall>r \<in> set (detectAll ?h cs includeWsl). is_entry env agent r \<longrightarrow> r = uninstalled env agent"
  proof (intro ballI impI)
    fix r assume r: "r \<in> set (detectAll ?h cs includeWsl)" and e: "is_entry env agent r"
    from e have env: "environment r = env" and rid: "cli_id r = agent"
      by (simp_all add: is_entry_def)
    from r obtain a e' where a: "r = probe ?h e' a"
      by (auto simp add: detectAll_def split: if_splits)
    with env rid have "e' = env" "fst a = agent" by (simp_all add: probe_id_env)
    with a show "r = uninstalled env agent"
      using assms by (simp add: probe_failed)
  qed
  have oth: "filter (\<lambda>r. \<not> is_entry env agent r) (detectAll ?h cs includeWsl)
      = filter (\<lambda>r. \<not> is_entry env agent r) (detectAll h cs includeWsl)"
    by (simp add: detectAll_def probed_agents_with_outcome others_same others_same_installed
        host_is_windows_with_outcome builtin_agents_with_outcome del: filter_filter)
  from len deg oth show ?thesis by simp
qed

theorem detectAll_isolation_witness:
  "(TimedOut = Failed \<or> TimedOut = TimedOut) \<and>
   detectAll (with_outcome detector0 Native ''claude'' TimedOut) [] True =
     [uninstalled Native ''claude'',
      \<lparr>cli_id = ''codex'', installed = True, version = Some ''0.2.0'', environment = Native\<rparr>] \<and>
   filter (\<lambda>r. \<not> is_entry Native ''claude'' r)
      (detectAll (with_outcome detector0 Native ''claude'' TimedOut) [] True)
     = filter (\<lambda>r. \<not> is_entry Native ''claude'' r) (detectAll detector0 [] True)"
proof -
  have o: "TimedOut = Failed \<or> TimedOut = TimedOut" by simp
  from detectAll_isolation [OF o, of detector0 Native "''claude''" "[]" True]
  have "filter (\<lambda>r. \<not> is_entry Native ''claude'' r)
      (detectAll (with_outcome detector0 Native ''claude'' TimedOut) [] True)
     = filter (\<lambda>r. \<not> is_entry Native ''claude'' r) (detectAll detector0 [] True)"
    by (rule conjunct2 [THEN conjunct2])
  with o show ?thesis by (simp add: detectAll_detector0_timeout uninstalled_def)
qed

section \<open>The command a session launches\<close>

text \<open>
  Claim C6. When \<open>create\<close> spawns a process, the command is chosen in this order: a
  supplied \<open>options.shell\<close> (a non-empty string) is used as it is, with \<open>options.args\<close> or
  no arguments; otherwise a supplied \<open>options.shellConfig\<close> is resolved by
  \<open>resolveShellConfig\<close>, which gives both the shell and its arguments; otherwise the shell
  is \<open>detectShell()\<close>, with \<open>options.args\<close> or no arguments.
\<close>

theorem create_command_priority:
  assumes "create h options d e w = (Inr sid, w')"
  shows "\<exists>p. session_proc w' sid = Some p \<and>
     (\<forall>s. opt_shell options = Some s \<and> s \<noteq> [] \<longrightarrow>
        pty_file p = s \<and> pty_args p = (case opt_args options of None \<Rightarrow> [] | Some a \<Rightarrow> a)) \<and>
     (\<forall>cfg. (opt_shell options = None \<or> opt_shell options = Some []) \<and>
        opt_shellConfig options = Some cfg \<longrightarrow>
        (pty_file p, pty_args p) = resolveShellConfig h cfg) \<and>
     ((opt_shell options = None \<or> opt_shell options = Some []) \<and>
        opt_shellConfig options = None \<longrightarrow>
        pty_file p = detectShell h \<and>
        pty_args p = (case opt_args options of None \<Rightarrow> [] | Some a \<Rightarrow> a))"
proof -
  from create_success [OF assms] obtain p where
    p: "session_proc w' sid = Some p" and
    c: "(pty_file p, pty_args p) =
        (if truthy_str (opt_shell options) then
           (str_or (opt_shell options) [], arr_or (opt_args options) [])
         else (case opt_shellConfig options of
                 Some cfg \<Rightarrow> resolveShellConfig h cfg
               | None \<Rightarrow> (detectShell h, arr_or (opt_args options) [])))" by blast
  from c have "(\<forall>s. opt_shell options = Some s \<and> s \<noteq> [] \<longrightarrow>
        pty_file p = s \<and> pty_args p = (case opt_args options of None \<Rightarrow> [] | Some a \<Rightarrow> a))"
    by (auto simp add: truthy_str_def str_or_def arr_or_def)
  moreover from c have "(\<forall>cfg. (opt_shell options = None \<or> opt_shell options = Some []) \<and>
        opt_shellConfig options = Some cfg \<longrightarrow>
        (pty_file p, pty_args p) = resolveShellConfig h cfg)"
    by (auto simp add: truthy_str_def)
  moreover from c have "((opt_shell options = None \<or> opt_shell options = Some []) \<and>
        opt_shellConfig options = None \<longrightarrow>
        pty_file p = detectShell h \<and>
        pty_args p = (case opt_args options of None \<Rightarrow> [] | Some a \<Rightarrow> a))"
    by (auto simp add: truthy_str_def arr_or_def)
  ultimately show ?thesis using p by blast
qed

theorem create_command_priority_witness:
  "create host0 options1 7 (Some 8) world1 = (Inr ''pty-2'', world2) \<and>
   create host0 options0 0 None init_world = (Inr ''pty-1'', world1) \<and>
   (\<exists>p. session_proc world2 ''pty-2'' = Some p \<and> pty_file p = ''/bin/fish'' \<and> pty_args p = [''-i'']) \<and>
   (\<exists>p. session_proc world1 ''pty-1'' = Some p \<and> pty_file p = ''/bin/zsh'' \<and> pty_args p = [])"
  using create_command_priority [OF create_world2] create_command_priority [OF create_world1]
    create_world1 create_world2
  by (auto simp add: options0_def options1_def host0_def)

section \<open>The environment a session is given\<close>



section \<open>Session identifiers\<close>

text \<open>
  Claim C8, as stated, fails. The counter is a JavaScript number. After \<open>2^53 - 1\<close> calls
  of \<open>create\<close> (each session destroyed before the next is created) the next call returns
  \<open>pty-9007199254740992\<close>, and so does the call after it: \<open>2^53 + 1\<close> is not a
  JavaScript number, and the increment leaves the counter at \<open>2^53\<close>.
\<close>

theorem create_id_reused_counterexample:
  "fst (create host0 options0 0 None (run host0 init_world long_run)) = Inr ''pty-9007199254740992'' \<and>
   fst (create host0 options0 0 None
         (snd (create host0 options0 0 None (run host0 init_world long_run))))
     = Inr ''pty-9007199254740992''"
proof -
  have a: "js_incr (MAX_EXACT - Suc 0) = MAX_EXACT" by (simp add: js_incr_def MAX_EXACT_def)
  have b: "js_incr MAX_EXACT = MAX_EXACT" by (simp add: js_incr_def)
  show ?thesis
    by (simp add: create_host0_options0 create_counter counter_long_run a b num_to_string_MAX_EXACT)
qed

text \<open>
  Claim C8, amended. In a run from the initial state with at most \<open>2^53\<close> calls of
  \<open>create\<close>, the identifiers returned are pairwise distinct, whatever was destroyed in
  between: they are \<open>pty-n\<close> for strictly increasing numbers \<open>n\<close>.
\<close>

theorem create_ids_fresh:
  assumes "length (filter is_create evs) \<le> MAX_EXACT"
  shows "distinct (returned h init_world evs) \<and>
    (\<exists>ns. returned h init_world evs = map (\<lambda>n. ''pty-'' @ num_to_string n) ns \<and> sorted_wrt (<) ns)"
proof -
  from assms have "counter init_world + length (filter is_create evs) \<le> MAX_EXACT"
    by (simp add: init_world_def)
  from returned_increasing [OF this] obtain ns where
    ns: "returned h init_world evs = map mk_id ns" "sorted_wrt (<) ns" by blast
  from ns(2) have "distinct ns" using strict_sorted_iff by blast
  with ns(1) have "distinct (returned h init_world evs)"
    by (simp add: distinct_map inj_mk_id [THEN inj_on_subset])
  moreover have "mk_id = (\<lambda>n. ''pty-'' @ num_to_string n)" by (simp add: fun_eq_iff mk_id_def)
  ultimately show ?thesis using ns by auto
qed

theorem create_ids_fresh_witness:
  "length (filter is_create events0) \<le> MAX_EXACT \<and>
   distinct (returned host0 init_world events0) \<and>
   returned host0 init_world events0 = [''pty-1'', ''pty-2'']"
proof -
  have "length (filter is_create events0) \<le> MAX_EXACT"
    by (simp add: events0_def MAX_EXACT_def)
  from this create_ids_fresh [OF this, of host0] show ?thesis
    by (simp add: returned_events0)
qed

section \<open>Destroying twice\<close>

text \<open>
  Claim C9. \<open>destroy(id)\<close> on an identifier that is not in the registry returns normally
  and changes nothing, and a second \<open>destroy(id)\<close> right after a first has no further
  effect: \<open>destroy(id); destroy(id)\<close> leaves the same state as \<open>destroy(id)\<close>.
\<close>

theorem destroy_idempotent:
  "(map_of (sessions w) sid = None \<longrightarrow> destroy sid w = w) \<and>
   destroy sid (destroy sid w) = destroy sid w"
  by (simp add: destroy_unknown destroy_removes)

theorem destroy_idempotent_witness:
  "map_of (sessions (destroy ''pty-1'' world1)) ''pty-1'' = None \<and>
   destroy ''pty-1'' (destroy ''pty-1'' world1) = destroy ''pty-1'' world1 \<and>
   destroy ''pty-1'' world1 \<noteq> world1"
proof -
  have "sessions (destroy ''pty-1'' world1) = []"
    by (simp add: destroy_def sessions_world1 Let_def sessions_update_proc)
  then have "destroy ''pty-1'' world1 \<noteq> world1"
    using sessions_world1 by auto
  then show ?thesis
    using destroy_idempotent [of "destroy ''pty-1'' world1" "''pty-1''"]
    by (simp add: destroy_removes)
qed

section \<open>The geometry a session starts with\<close>

text \<open>
  Claim C10. When \<open>create\<close> spawns a process, a column count that is missing or 0 becomes
  80 and a row count that is missing or 0 becomes 24; any other value, a negative one too,
  is passed to the spawn unchanged. So the process never starts with a dimension equal to 0.
\<close>

theorem create_geometry_default:
  assumes "create h options d e w = (Inr sid, w')"
  shows "\<exists>p. session_proc w' sid = Some p \<and>
     (opt_cols options = None \<or> opt_cols options = Some 0 \<longrightarrow> pty_cols p = 80) \<and>
     (opt_rows options = None \<or> opt_rows options = Some 0 \<longrightarrow> pty_rows p = 24) \<and>
     (\<forall>c. opt_cols options = Some c \<and> c \<noteq> 0 \<longrightarrow> pty_cols p = c) \<and>
     (\<forall>r. opt_rows options = Some r \<and> r \<noteq> 0 \<longrightarrow> pty_rows p = r) \<and>
     pty_cols p \<noteq> 0 \<and> pty_rows p \<noteq> 0"
proof -
  from create_success [OF assms] obtain p where
    p: "session_proc w' sid = Some p" and
    c: "pty_cols p = num_or (opt_cols options) 80" and
    r: "pty_rows p = num_or (opt_rows options) 24" by blast
  from c have "(opt_cols options = None \<or> opt_cols options = Some 0 \<longrightarrow> pty_cols p = 80) \<and>
     (\<forall>c. opt_cols options = Some c \<and> c \<noteq> 0 \<longrightarrow> pty_cols p = c) \<and> pty_cols p \<noteq> 0"
    by (auto simp add: num_or_def split: option.splits)
  moreover from r have "(opt_rows options = None \<or> opt_rows options = Some 0 \<longrightarrow> pty_rows p = 24) \<and>
     (\<forall>r. opt_rows options = Some r \<and> r \<noteq> 0 \<longrightarrow> pty_rows p = r) \<and> pty_rows p \<noteq> 0"
    by (auto simp add: num_or_def split: option.splits)
  ultimately show ?thesis using p by blast
qed

theorem create_geometry_default_witness:
  "create host0 options1 7 (Some 8) world1 = (Inr ''pty-2'', world2) \<and>
   create host0 options0 0 None init_world = (Inr ''pty-1'', world1) \<and>
   (\<exists>p. session_proc world2 ''pty-2'' = Some p \<and> pty_cols p = - 5 \<and> pty_rows p = 24) \<and>
   (\<exists>p. session_proc world1 ''pty-1'' = Some p \<and> pty_cols p = 80 \<and> pty_rows p = 24)"
  using create_geometry_default [OF create_world2] create_geometry_default [OF create_world1]
    create_world1 create_world2
  by (auto simp add: options0_def options1_def)

end
